theory Spec2Isabelle
  imports Main
begin

section \<open>JavaScript values used by the gateway\<close>

text \<open>
  Strings are \<open>string\<close> (lists of characters). \<open>null\<close> and \<open>undefined\<close> are the
  value \<open>None\<close> of an option type: the functions below treat both alike (a truthiness
  test, or \<open>!== undefined && !== null\<close>).
\<close>

text \<open>\<open>s.startsWith(p)\<close>\<close>

definition startsWith :: "string \<Rightarrow> string \<Rightarrow> bool" where
  "startsWith p s = (take (length p) s = p)"

text \<open>\<open>s.endsWith(p)\<close>\<close>

definition endsWith :: "string \<Rightarrow> string \<Rightarrow> bool" where
  "endsWith p s = (length p \<le> length s \<and> drop (length s - length p) s = p)"

text \<open>\<open>s.includes(p)\<close>: the pattern occurs somewhere in the string.\<close>

fun includes_str :: "string \<Rightarrow> string \<Rightarrow> bool" where
  "includes_str p [] = (p = [])"
| "includes_str p (c # cs) = (startsWith p (c # cs) \<or> includes_str p cs)"

text \<open>
  \<open>s.replace(p, r)\<close> with a string pattern: only the first occurrence of \<open>p\<close>, wherever
  it is, is replaced (the replacement strings used here hold no \<open>$\<close> pattern).
\<close>

fun replace :: "string \<Rightarrow> string \<Rightarrow> string \<Rightarrow> string" where
  "replace p r [] = (if p = [] then r else [])"
| "replace p r (c # cs) =
     (if startsWith p (c # cs) then r @ drop (length p) (c # cs)
      else c # replace p r cs)"

text \<open>\<open>xs.join(sep)\<close> on an array of strings.\<close>

fun join :: "string \<Rightarrow> string list \<Rightarrow> string" where
  "join sep [] = []"
| "join sep [x] = x"
| "join sep (x # y # ys) = x @ sep @ join sep (y # ys)"

text \<open>
  \<open>s.split(sep)\<close> with a one-character separator: the pieces between the separators in
  order; a string without separator, the empty one too, gives a single piece.
\<close>

fun split :: "char \<Rightarrow> string \<Rightarrow> string list" where
  "split sep [] = [[]]"
| "split sep (c # cs) =
     (if c = sep then [] # split sep cs
      else (case split sep cs of
              [] \<Rightarrow> [[c]]
            | x # xs \<Rightarrow> (c # x) # xs))"

text \<open>\<open>s.toLowerCase()\<close>, on the letters \<open>A\<close> to \<open>Z\<close>.\<close>

definition lower_char :: "char \<Rightarrow> char" where
  "lower_char c =
     (case map_of (zip ''ABCDEFGHIJKLMNOPQRSTUVWXYZ'' ''abcdefghijklmnopqrstuvwxyz'') c of
        Some l \<Rightarrow> l
      | None \<Rightarrow> c)"

definition toLowerCase :: "string \<Rightarrow> string" where
  "toLowerCase s = map lower_char s"

subsection \<open>Numbers\<close>

text \<open>
  A JavaScript number is modelled as an integer or \<open>NaN\<close>. The integers stand for the
  doubles that hold an integer exactly, of magnitude below \<open>2 ^ 53\<close>: on these
  \<open>toString\<close>, \<open>parseInt\<close> and the arithmetic used below are exact. Fractions, infinities
  and larger magnitudes are outside the model (a larger integer is rounded to a double by
  JavaScript, and printed with an exponent from \<open>10 ^ 21\<close> on), and the statements about
  \<open>toString\<close> and \<open>parseInt\<close> are made within that bound.
\<close>

datatype number = Num int | NaN

text \<open>\<open>ToBoolean\<close> on a number: \<open>0\<close> and \<open>NaN\<close> are falsy.\<close>

fun truthy :: "number \<Rightarrow> bool" where
  "truthy (Num n) = (n \<noteq> 0)"
| "truthy NaN = False"

text \<open>\<open>a > b\<close>: false as soon as one side is \<open>NaN\<close>.\<close>

fun greater :: "number \<Rightarrow> number \<Rightarrow> bool" where
  "greater (Num a) (Num b) = (a > b)"
| "greater _ _ = False"

text \<open>\<open>a <= b\<close>, false as well when one side is \<open>NaN\<close>.\<close>

fun less_eq_number :: "number \<Rightarrow> number \<Rightarrow> bool" where
  "less_eq_number (Num a) (Num b) = (a \<le> b)"
| "less_eq_number _ _ = False"

text \<open>\<open>Math.floor(x / d)\<close> for a positive integer \<open>d\<close>.\<close>

fun floor_div :: "number \<Rightarrow> int \<Rightarrow> number" where
  "floor_div (Num n) d = Num (n div d)"
| "floor_div NaN d = NaN"

text \<open>The decimal digits of a natural number, most significant first.\<close>

definition digit_char :: "nat \<Rightarrow> char" where
  "digit_char d = ''0123456789abcdef'' ! d"

fun digits :: "nat \<Rightarrow> string" where
  "digits n = (if n < 10 then [digit_char n] else digits (n div 10) @ [digit_char (n mod 10)])"

declare digits.simps [simp del]

text \<open>
  \<open>x.toString()\<close>: a minus sign in front of a negative number, \<open>"NaN"\<close> for \<open>NaN\<close>
  (the decimal rendering is the one JavaScript gives below \<open>10 ^ 21\<close>).
\<close>

fun number_toString :: "number \<Rightarrow> string" where
  "number_toString (Num n) = (if n < 0 then CHR ''-'' # digits (nat (- n)) else digits (nat n))"
| "number_toString NaN = ''NaN''"

text \<open>
  \<open>parseInt(s)\<close> without radix: leading white space is skipped (the ASCII white space
  characters here), then an optional sign, then an optional \<open>0x\<close> or \<open>0X\<close> that selects
  radix 16 (radix 10 otherwise), then the longest run of digits of that radix; no digit
  at all gives \<open>NaN\<close>.
\<close>

definition is_space :: "char \<Rightarrow> bool" where
  "is_space c = (c \<in> set [CHR '' '', CHR 0x09, CHR 0x0A, CHR 0x0B, CHR 0x0C, CHR 0x0D])"

definition digit_value :: "char \<Rightarrow> nat" where
  "digit_value c =
     (let k = (of_char c :: nat) in
      if 48 \<le> k \<and> k \<le> 57 then k - 48
      else if 97 \<le> k \<and> k \<le> 102 then k - 87
      else if 65 \<le> k \<and> k \<le> 70 then k - 55
      else 16)"

definition is_digit :: "nat \<Rightarrow> char \<Rightarrow> bool" where
  "is_digit radix c = (digit_value c < radix)"

definition digits_value :: "nat \<Rightarrow> string \<Rightarrow> nat" where
  "digits_value radix z = foldl (\<lambda>a c. a * radix + digit_value c) 0 z"

definition parseInt :: "string \<Rightarrow> number" where
  "parseInt s =
     (let s1 = dropWhile is_space s;
          neg = startsWith ''-'' s1;
          s2 = (if startsWith ''-'' s1 \<or> startsWith ''+'' s1 then drop 1 s1 else s1);
          hex = (startsWith ''0x'' s2 \<or> startsWith ''0X'' s2);
          radix = (if hex then 16 else 10);
          s3 = (if hex then drop 2 s2 else s2);
          z = takeWhile (is_digit radix) s3
      in if z = [] then NaN
         else Num ((if neg then - 1 else 1) * int (digits_value radix z)))"

text \<open>The regular expression test \<open>/^[0-9]+$/.test(s)\<close>.\<close>

definition test_digits :: "string \<Rightarrow> bool" where
  "test_digits s = (s \<noteq> [] \<and> (\<forall>c \<in> set s. is_digit 10 c))"

section \<open>Normalizers of \<open>utils\<close>\<close>

text \<open>A value of type \<open>string | number\<close>; \<open>null\<close> and \<open>undefined\<close> are \<open>None\<close>.\<close>

datatype string_or_number = Str string | Number number

text \<open>\<open>throw new Error(message)\<close>\<close>

datatype error = Error string

text \<open>
  \<open>formatAddress(address: string | null)\<close>: \<open>!address\<close> holds for \<open>null\<close> and for the
  empty string; \<open>address.slice(2)\<close> drops the first two characters.
\<close>

definition formatAddress :: "string option \<Rightarrow> string option" where
  "formatAddress address =
     (case address of
        None \<Rightarrow> None
      | Some a \<Rightarrow>
          if a = [] then None
          else if startsWith ''0x'' a then Some (drop 2 a)
          else Some a)"

text \<open>
  \<open>parseLimit(limit, defaultLimit)\<close>; \<open>config.maxLimit\<close>, of a configuration that is not
  part of the sources, is the first argument. The conditions \<open>if (defaultLimit)\<close> and
  \<open>if (limit)\<close> are truthiness tests: an empty string, \<open>0\<close> and \<open>NaN\<close> fail them as
  \<open>null\<close> and \<open>undefined\<close> do.
\<close>

definition parseLimit ::
  "number \<Rightarrow> string_or_number option \<Rightarrow> number option \<Rightarrow> number" where
  "parseLimit maxLimit limit defaultLimit =
     (let value0 = Num 1;
          value1 = (case defaultLimit of
                      Some d \<Rightarrow> if truthy d then d else value0
                    | None \<Rightarrow> value0);
          value2 = (case limit of
                      Some (Str s) \<Rightarrow> if s \<noteq> [] then parseInt s else value1
                    | Some (Number n) \<Rightarrow> if truthy n then n else value1
                    | None \<Rightarrow> value1)
      in if greater value2 maxLimit then maxLimit else value2)"

text \<open>
  \<open>parseBlockId(block_id?: string | null)\<close>:
  \<open>block_id ? block_id.replace("0x", "") : undefined\<close>.
\<close>

definition parseBlockId :: "string option \<Rightarrow> string option" where
  "parseBlockId block_id =
     (case block_id of
        None \<Rightarrow> None
      | Some b \<Rightarrow> if b = [] then None else Some (replace ''0x'' [] b))"

text \<open>
  \<open>parseTimestamp(timestamp?: string | null | number)\<close>. The date parser of the
  JavaScript runtime is the parameter \<open>date\<close>: \<open>date s\<close> is \<open>Number(new Date(s))\<close>, the
  time value in milliseconds, or \<open>NaN\<close> for an invalid date. The result is
  \<open>Inl\<close> of the error thrown, or \<open>Inr\<close> of the value returned (\<open>None\<close> for
  \<open>undefined\<close>).
\<close>

function parseTimestamp ::
  "(string \<Rightarrow> number) \<Rightarrow> string_or_number option \<Rightarrow> error + number option" where
  "parseTimestamp date None = Inr None"
| "parseTimestamp date (Some (Str s)) =
     (if test_digits s then parseTimestamp date (Some (Number (parseInt s)))
      else Inr (Some (floor_div (date (if endsWith ''Z'' s then s else s @ ''Z'')) 1000)))"
| "parseTimestamp date (Some (Number n)) =
     (let len = length (number_toString n) in
      if len = 10 then Inr (Some n)
      else if len = 13 then Inr (Some (floor_div n 1000))
      else Inl (Error ''Invalid timestamp''))"
  by pat_completeness auto
termination
  by (relation "measure (\<lambda>(date, t). case t of Some (Str s) \<Rightarrow> 1 | _ \<Rightarrow> 0)") auto

section \<open>The error response\<close>

text \<open>
  A Zod issue: its code, its path (property names and array indices) and its message.
\<close>

datatype path_segment = Key string | Index nat

datatype zod_issue =
  ZodIssue (issue_code: string) (issue_path: "path_segment list") (issue_message: string)

text \<open>
  The value \<open>err: unknown\<close> handed to \<open>APIErrorResponse\<close>: a string, a \<open>ZodError\<close> with
  its issues, another \<open>Error\<close> with its message, or anything else.
\<close>

datatype thrown = StringValue string | ZodError "zod_issue list" | OtherError string | OtherValue

record api_error =
  status :: nat
  code :: string
  message :: string

text \<open>
  The collaborators written to: the entries given to \<open>logger.error\<close>, oldest first, and
  the counter \<open>prometheus.request_error\<close>, one count for each label pair
  \<open>(pathname, status)\<close>.
\<close>

record effects =
  logged :: "api_error list"
  request_error :: "string \<times> nat \<Rightarrow> nat"

text \<open>What a handler reads of the Hono context \<open>ctx.req\<close>.\<close>

record hono_context =
  req_path :: string
  req_param :: "string \<rightharpoonup> string"
  req_query :: "string \<rightharpoonup> string"

text \<open>\<open>ctx.json(body, status)\<close>\<close>

datatype response = Json api_error nat

definition segment_toString :: "path_segment \<Rightarrow> string" where
  "segment_toString seg = (case seg of Key k \<Rightarrow> k | Index i \<Rightarrow> digits i)"

text \<open>\<open>`[${issue.code}] ${issue.path.join('/')}: ${issue.message}`\<close>\<close>

definition issue_line :: "zod_issue \<Rightarrow> string" where
  "issue_line issue =
     ''['' @ issue_code issue @ ''] '' @ join ''/'' (map segment_toString (issue_path issue))
       @ '': '' @ issue_message issue"

definition error_message :: "thrown \<Rightarrow> string" where
  "error_message err =
     (case err of
        StringValue s \<Rightarrow> s
      | ZodError issues \<Rightarrow> join [CHR 0x0A] (map issue_line issues)
      | OtherError m \<Rightarrow> m
      | OtherValue \<Rightarrow> ''An unexpected error occured'')"

definition APIErrorResponse ::
  "hono_context \<Rightarrow> nat \<Rightarrow> string \<Rightarrow> thrown \<Rightarrow> effects \<Rightarrow> response \<times> effects" where
  "APIErrorResponse ctx st cd err fx =
     (let api_error = \<lparr>status = st, code = cd, message = error_message err\<rparr>;
          fx1 = fx\<lparr>logged := logged fx @ [api_error]\<rparr>;
          fx2 = fx1\<lparr>request_error :=
                  (request_error fx1)((req_path ctx, st) := request_error fx1 (req_path ctx, st) + 1)\<rparr>
      in (Json api_error st, fx2))"

section \<open>The usage endpoints\<close>

text \<open>
  Parameter values: a string, a number or an array. A parameter set maps names to
  values; what \<open>ctx.req.param()\<close> and \<open>ctx.req.query()\<close> return holds strings only.
\<close>

datatype jsvalue = JString string | JNumber number | JArray "jsvalue list"

type_synonym params = "string \<rightharpoonup> jsvalue"

definition raw_params :: "(string \<rightharpoonup> string) \<Rightarrow> params" where
  "raw_params r = (\<lambda>k. map_option JString (r k))"

text \<open>
  The result of \<open>safeParse\<close>: \<open>{success: true, data}\<close>, or \<open>{success: false, error}\<close>
  with the issues of the error.
\<close>

datatype safe_parse = success: Success (data: params) | Failure (error_issues: "zod_issue list")

text \<open>
  The generated Zod schemas of \<open>zod.gen\<close> are not part of the sources: a schema is taken
  as the function from the input to its \<open>safeParse\<close> result, and
  \<open>paths[endpoint]["get"]["parameters"]\<close> gives a path schema and a query schema,
  each of which may be undefined.
\<close>

type_synonym schema = "params \<Rightarrow> safe_parse"

record parameters =
  path_schema :: "schema option"
  query_schema :: "schema option"

text \<open>\<open>(s ?? z.unknown()).safeParse(x)\<close>: \<open>z.unknown()\<close> accepts every input as it is.\<close>

definition safeParse :: "schema option \<Rightarrow> params \<Rightarrow> safe_parse" where
  "safeParse s x = (case s of None \<Rightarrow> Success x | Some f \<Rightarrow> f x)"

text \<open>
  The function given to \<open>z.preprocess\<close>: a truthy \<open>block_range\<close> (a non-empty string)
  is replaced by its pieces.
\<close>

definition preprocess :: "(string \<rightharpoonup> string) \<Rightarrow> params" where
  "preprocess q =
     (case q ''block_range'' of
        Some r \<Rightarrow>
          if r \<noteq> [] then (raw_params q)(''block_range'' \<mapsto> JArray (map JString (split CHR '','' r)))
          else raw_params q
      | None \<Rightarrow> raw_params q)"

text \<open>The function given to \<open>.transform\<close>: one step of its loop, and the loop.\<close>

definition addresses :: "string list" where
  "addresses = [''contract'', ''account'', ''from'', ''to'']"

definition drop_0x :: "params \<Rightarrow> string \<Rightarrow> params" where
  "drop_0x q prop =
     (case q prop of
        Some (JString a) \<Rightarrow>
          if a \<noteq> [] \<and> startsWith ''0x'' (toLowerCase a) then q(prop \<mapsto> JString (drop 2 a))
          else q
      | _ \<Rightarrow> q)"

definition transform :: "params \<Rightarrow> params" where
  "transform q = foldl drop_0x q addresses"

text \<open>
  \<open>query_params_schema.safeParse\<close>: preprocessing, then the schema, then the
  transformation of the parsed data if the schema accepted its input.
\<close>

definition query_safeParse :: "schema option \<Rightarrow> (string \<rightharpoonup> string) \<Rightarrow> safe_parse" where
  "query_safeParse s q =
     (case safeParse s (preprocess q) of
        Success v \<Rightarrow> Success (transform v)
      | Failure issues \<Rightarrow> Failure issues)"

text \<open>\<open>result.error?.issues\<close>, which \<open>addIssues\<close> takes as no issue when undefined.\<close>

definition issues_of :: "safe_parse \<Rightarrow> zod_issue list" where
  "issues_of r = (case r of Success v \<Rightarrow> [] | Failure issues \<Rightarrow> issues)"

text \<open>
  What the handler of a usage endpoint ends with: the call
  \<open>makeUsageQuery(ctx, endpoint, params)\<close> (of \<open>usage\<close>, outside the sources), or an
  error response.
\<close>

datatype outcome = MakeUsageQuery string params | Respond response

text \<open>
  The handler that \<open>createUsageEndpoint(endpoint)\<close> registers with \<open>app.get\<close>, run on the
  context of a request; \<open>paths\<close> is the table of \<open>zod.gen\<close>. Both parameter sets are parsed
  before the test on the two results. The spread \<open>{...a, ...b}\<close> is \<open>a ++ b\<close>: the fields of
  \<open>b\<close> win.
\<close>

definition createUsageEndpoint ::
  "(string \<Rightarrow> parameters) \<Rightarrow> string \<Rightarrow> hono_context \<Rightarrow> effects \<Rightarrow> outcome \<times> effects" where
  "createUsageEndpoint paths endpoint ctx fx =
     (let path_params = safeParse (path_schema (paths endpoint)) (raw_params (req_param ctx));
          query_params = query_safeParse (query_schema (paths endpoint)) (req_query ctx)
      in if success path_params \<and> success query_params
         then (MakeUsageQuery endpoint (data path_params ++ data query_params), fx)
         else
           (let e = ZodError (issues_of path_params @ issues_of query_params);
                (r, fx') = APIErrorResponse ctx 400 ''bad_query_input'' e fx
            in (Respond r, fx')))"

section \<open>The rules of the specification, and sample data\<close>

text \<open>The number of decimal digits of an integer.\<close>

definition digit_length :: "int \<Rightarrow> nat" where
  "digit_length n = length (digits (nat \<bar>n\<bar>))"

text \<open>
  The specification's rule for a numeric timestamp, in its words: exactly 10 digits are
  seconds and pass through, exactly 13 digits are milliseconds, divided by 1000 and
  floored, any other digit length fails with \<open>InvalidTimestamp\<close>.
\<close>

definition spec_normalizeTimestamp :: "int \<Rightarrow> error + number option" where
  "spec_normalizeTimestamp n =
     (if digit_length n = 10 then Inr (Some (Num n))
      else if digit_length n = 13 then Inr (Some (Num (n div 1000)))
      else Inl (Error ''Invalid timestamp''))"

text \<open>A date parser for the examples: it knows two dates and rejects every other string.\<close>

definition sample_date :: "string \<Rightarrow> number" where
  "sample_date s =
     (if s = ''1970-01-01T00:00:01.500Z'' then Num 1500
      else if s = ''1969-12-31T23:59:59.500Z'' then Num (- 500)
      else NaN)"

text \<open>
  An endpoint for the examples: its path schema wants an \<open>address\<close> of 42 characters,
  its query schema wants \<open>block_range\<close>, if present, to be an array.
\<close>

definition sample_path_schema :: schema where
  "sample_path_schema p =
     (case p ''address'' of
        Some (JString a) \<Rightarrow>
          if length a = 42 then Success p
          else Failure [ZodIssue ''custom'' [Key ''address''] ''Invalid address'']
      | _ \<Rightarrow> Failure [ZodIssue ''invalid_type'' [Key ''address''] ''Required''])"

definition sample_query_schema :: schema where
  "sample_query_schema q =
     (case q ''block_range'' of
        Some (JString r) \<Rightarrow>
          Failure [ZodIssue ''invalid_type'' [Key ''block_range''] ''Expected array, received string'']
      | _ \<Rightarrow> Success q)"

definition sample_paths :: "string \<Rightarrow> parameters" where
  "sample_paths endpoint =
     \<lparr>path_schema = Some sample_path_schema, query_schema = Some sample_query_schema\<rparr>"

definition sample_context :: hono_context where
  "sample_context =
     \<lparr>req_path = ''/balances/evm/0x12'',
      req_param = [''address'' \<mapsto> ''0x12''],
      req_query = [''block_range'' \<mapsto> [], ''contract'' \<mapsto> ''0Xab'']\<rparr>"

text \<open>Nothing logged yet, every counter at zero.\<close>

definition no_effects :: effects where
  "no_effects = \<lparr>logged = [], request_error = (\<lambda>labels. 0)\<rparr>"

section \<open>Properties of the string helpers\<close>

lemma startsWith_append [simp]: "startsWith p (p @ r)"
  by (simp add: startsWith_def)

lemma startsWith_imp_append: "startsWith p s \<Longrightarrow> s = p @ drop (length p) s"
  by (metis append_take_drop_id startsWith_def)

lemma replace_startsWith: "startsWith p s \<Longrightarrow> replace p r s = r @ drop (length p) s"
  by (cases s) (auto simp: startsWith_def)

lemma replace_not_includes: "\<not> includes_str p s \<Longrightarrow> replace p r s = s"
  by (induction s) auto

section \<open>Address prefix stripping\<close>

text \<open>
  C7 (claim as stated, refuted): \<open>formatAddress\<close> is not the identity on every string
  that does not begin with \<open>0x\<close>: the empty string does not begin with \<open>0x\<close> and is
  mapped to the absent value.
\<close>

theorem formatAddress_identity_counterexample:
  "\<not> startsWith ''0x'' '''' \<and> formatAddress (Some '''') \<noteq> Some ''''"
  by (simp add: formatAddress_def startsWith_def)

text \<open>
  C7 (amended): \<open>null\<close> maps to the absent value, and so does the empty string; for every
  string that begins with \<open>0x\<close> the result is the rest of the string, so that putting
  \<open>0x\<close> back in front of the result gives the original string; on every non-empty
  string that does not begin with \<open>0x\<close> the function is the identity, and applying it a
  second time to such a result changes nothing.
\<close>

theorem formatAddress_correct:
  "formatAddress None = None
   \<and> formatAddress (Some []) = None
   \<and> (startsWith ''0x'' a \<longrightarrow>
         formatAddress (Some a) = Some (drop 2 a) \<and> ''0x'' @ drop 2 a = a)
   \<and> (b \<noteq> [] \<and> \<not> startsWith ''0x'' b \<longrightarrow>
         formatAddress (Some b) = Some b
         \<and> formatAddress (formatAddress (Some b)) = formatAddress (Some b))"
proof -
  have rt: "formatAddress (Some a) = Some (drop 2 a) \<and> ''0x'' @ drop 2 a = a"
    if p: "startsWith ''0x'' a"
  proof -
    from p obtain r where r: "a = ''0x'' @ r"
      using startsWith_imp_append by blast
    then have a: "''0x'' @ drop 2 a = a" by simp
    then have "a \<noteq> []" by auto
    with p have "formatAddress (Some a) = Some (drop 2 a)"
      by (simp add: formatAddress_def)
    with a show ?thesis by simp
  qed
  show ?thesis
    using rt by (simp add: formatAddress_def)
qed

theorem formatAddress_correct_witness:
  "formatAddress (Some ''0xdAC17F958D2ee523a2206206994597C13D831ec7'')
     = Some ''dAC17F958D2ee523a2206206994597C13D831ec7''
   \<and> formatAddress (Some ''dAC17F958D2ee523a2206206994597C13D831ec7'')
     = Some ''dAC17F958D2ee523a2206206994597C13D831ec7''
   \<and> formatAddress (formatAddress (Some ''dAC17F958D2ee523a2206206994597C13D831ec7''))
     = formatAddress (Some ''dAC17F958D2ee523a2206206994597C13D831ec7'')"
proof -
  have n: "''dAC17F958D2ee523a2206206994597C13D831ec7'' \<noteq> []
           \<and> \<not> startsWith ''0x'' ''dAC17F958D2ee523a2206206994597C13D831ec7''"
    by (simp add: startsWith_def)
  have p: "startsWith ''0x'' ''0xdAC17F958D2ee523a2206206994597C13D831ec7''"
    by (simp add: startsWith_def)
  from formatAddress_correct [of "''0xdAC17F958D2ee523a2206206994597C13D831ec7''"
      "''dAC17F958D2ee523a2206206994597C13D831ec7''"] n p
  show ?thesis by simp
qed

section \<open>Block identifiers\<close>

lemma replace_0x: "startsWith ''0x'' b \<Longrightarrow> replace ''0x'' [] b = drop 2 b"
  using replace_startsWith [of "''0x''" b "[]"] by (simp add: numeral_2_eq_2)

text \<open>
  C8 (claim as stated, refuted): \<open>parseBlockId\<close> and \<open>formatAddress\<close> do not agree on
  every non-empty string. \<open>replace\<close> removes the first \<open>0x\<close> wherever it stands, while
  \<open>formatAddress\<close> only looks at the beginning of the string.
\<close>

theorem parseBlockId_formatAddress_counterexample:
  "parseBlockId (Some ''1a0xb'') = Some ''1ab''
   \<and> formatAddress (Some ''1a0xb'') = Some ''1a0xb''
   \<and> parseBlockId (Some ''1a0xb'') \<noteq> formatAddress (Some ''1a0xb'')"
  by (simp add: parseBlockId_def formatAddress_def startsWith_def)

text \<open>
  C8 (amended): absent input gives absent output; on a non-empty string \<open>parseBlockId\<close>
  returns the string without its first occurrence of \<open>0x\<close>, whatever the string is (no
  format is checked, nothing fails); \<open>parseBlockId\<close> and \<open>formatAddress\<close> agree on every
  string that begins with \<open>0x\<close> and on every string in which \<open>0x\<close> does not occur.
\<close>

theorem parseBlockId_formatAddress:
  "parseBlockId None = None
   \<and> formatAddress None = None
   \<and> (b \<noteq> [] \<longrightarrow> parseBlockId (Some b) = Some (replace ''0x'' [] b))
   \<and> (startsWith ''0x'' b \<or> \<not> includes_str ''0x'' b \<longrightarrow>
         parseBlockId (Some b) = formatAddress (Some b))"
proof -
  have pre: "parseBlockId (Some b) = formatAddress (Some b)" if p: "startsWith ''0x'' b"
  proof -
    from p have "b \<noteq> []" by (auto simp: startsWith_def)
    with p show ?thesis
      by (simp add: parseBlockId_def formatAddress_def replace_0x)
  qed
  have non: "parseBlockId (Some b) = formatAddress (Some b)"
    if n: "\<not> includes_str ''0x'' b"
  proof -
    from n have r: "replace ''0x'' [] b = b"
      by (rule replace_not_includes)
    from n have "\<not> startsWith ''0x'' b"
      by (cases b) (auto simp: startsWith_def)
    with r show ?thesis
      by (simp add: parseBlockId_def formatAddress_def)
  qed
  show ?thesis
    using pre non by (auto simp: parseBlockId_def formatAddress_def)
qed

theorem parseBlockId_formatAddress_witness:
  "parseBlockId (Some ''0x1b4f'') = Some (replace ''0x'' [] ''0x1b4f'')
   \<and> parseBlockId (Some ''0x1b4f'') = formatAddress (Some ''0x1b4f'')
   \<and> formatAddress (Some ''0x1b4f'') = Some ''1b4f''"
proof -
  have n: "''0x1b4f'' \<noteq> []" and p: "startsWith ''0x'' ''0x1b4f''"
    by (simp_all add: startsWith_def)
  have f: "formatAddress (Some ''0x1b4f'') = Some ''1b4f''"
    by (simp add: formatAddress_def startsWith_def)
  from parseBlockId_formatAddress [of "''0x1b4f''"] n p f show ?thesis
    by blast
qed

section \<open>Pagination limits\<close>

text \<open>What \<open>parseLimit\<close> does ensure: the upper bound, and the defaults.\<close>

lemma le_maxLimit:
  "(if greater x (Num m) then Num m else x) = Num v \<Longrightarrow> v \<le> m"
  by (cases x) (auto split: if_splits)

lemma parseLimit_le_maxLimit: "parseLimit (Num m) limit d = Num v \<Longrightarrow> v \<le> m"
  unfolding parseLimit_def Let_def by (rule le_maxLimit)

lemma parseLimit_absent: "1 \<le> m \<Longrightarrow> parseLimit (Num m) None None = Num 1"
  by (simp add: parseLimit_def)

lemma parseLimit_default:
  "d \<noteq> 0 \<Longrightarrow> parseLimit (Num m) None (Some (Num d)) = Num (min d m)"
  by (simp add: parseLimit_def min_def)

lemma parseLimit_number:
  "n \<noteq> 0 \<Longrightarrow> parseLimit (Num m) (Some (Number (Num n))) d = Num (min n m)"
  by (simp add: parseLimit_def min_def)

lemma parseLimit_string:
  "s \<noteq> [] \<Longrightarrow> parseInt s = Num n \<Longrightarrow> parseLimit (Num m) (Some (Str s)) d = Num (min n m)"
  by (simp add: parseLimit_def min_def)

text \<open>
  C3: the result of \<open>parseLimit\<close> lies between 1 and \<open>maxLimit\<close>. The code does not
  ensure the lower bound: with \<open>maxLimit = 1000\<close> and default 10, the number \<open>-5\<close> is
  returned as it is, and so is the 0 parsed from the string \<open>"0"\<close>.
\<close>

theorem parseLimit_below_one:
  "parseLimit (Num 1000) (Some (Number (Num (- 5)))) (Some (Num 10)) = Num (- 5)
   \<and> \<not> less_eq_number (Num 1) (parseLimit (Num 1000) (Some (Number (Num (- 5)))) (Some (Num 10)))
   \<and> parseLimit (Num 1000) (Some (Str ''0'')) (Some (Num 10)) = Num 0"
  by (simp add: parseLimit_def parseInt_def startsWith_def is_space_def is_digit_def
      digit_value_def digits_value_def)

text \<open>
  C4: \<open>parseLimit\<close> always returns an integer that is at most \<open>maxLimit\<close>. The code
  returns \<open>NaN\<close> for a string without leading integer: \<open>parseInt\<close> gives \<open>NaN\<close>, and the
  only check, \<open>value > maxLimit\<close>, is false for it.
\<close>

theorem parseLimit_not_a_number:
  "parseLimit (Num 1000) (Some (Str ''abc'')) (Some (Num 10)) = NaN
   \<and> \<not> less_eq_number (parseLimit (Num 1000) (Some (Str ''abc'')) (Some (Num 10))) (Num 1000)"
  by (simp add: parseLimit_def parseInt_def startsWith_def is_space_def is_digit_def
      digit_value_def)

section \<open>Timestamps\<close>

lemma digit_value_digit_char: "d < 10 \<Longrightarrow> digit_value (digit_char d) = d"
proof -
  assume "d < 10"
  then have "d \<in> {0, 1, 2, 3, 4, 5, 6, 7, 8, 9}" by auto
  then show ?thesis
    by (auto simp: digit_value_def digit_char_def)
qed

lemma digits_value_snoc:
  "digits_value r (z @ [c]) = digits_value r z * r + digit_value c"
  by (simp add: digits_value_def)

text \<open>Reading the decimal digits of a number gives the number back.\<close>

lemma digits_value_digits: "digits_value 10 (digits n) = n"
proof (induction n rule: digits.induct)
  case (1 n)
  show ?case
  proof (cases "n < 10")
    case True
    then show ?thesis
      using digits_value_snoc [of 10 "[]" "digit_char n"]
      by (simp add: digits.simps [of n] digit_value_digit_char digits_value_def)
  next
    case False
    with 1 have "digits_value 10 (digits (n div 10)) = n div 10" by simp
    with False show ?thesis
      by (simp add: digits.simps [of n] digits_value_snoc digit_value_digit_char)
  qed
qed

lemma test_digits_digits: "test_digits (digits n)"
proof (induction n rule: digits.induct)
  case (1 n)
  show ?case
  proof (cases "n < 10")
    case True
    then show ?thesis
      by (simp add: digits.simps [of n] test_digits_def is_digit_def digit_value_digit_char)
  next
    case False
    with 1 have "test_digits (digits (n div 10))" by simp
    with False show ?thesis
      by (simp add: digits.simps [of n] test_digits_def is_digit_def digit_value_digit_char)
  qed
qed

lemma is_digit_not_space: "is_digit 10 c \<Longrightarrow> \<not> is_space c"
  by (auto simp: is_digit_def is_space_def digit_value_def)

lemma is_digit_not_sign:
  "is_digit 10 c \<Longrightarrow> c \<noteq> CHR ''-'' \<and> c \<noteq> CHR ''+'' \<and> c \<noteq> CHR ''x'' \<and> c \<noteq> CHR ''X''"
  by (auto simp: is_digit_def digit_value_def)

text \<open>
  On a string of decimal digits \<open>parseInt\<close> skips nothing and reads all of it (exactly,
  for a value below \<open>2 ^ 53\<close>).
\<close>

lemma parseInt_digits:
  assumes "test_digits s" and "digits_value 10 s < 2 ^ 53"
  shows "parseInt s = Num (int (digits_value 10 s))"
proof -
  from assms obtain c cs where s: "s = c # cs" and c: "is_digit 10 c"
    and cs: "\<forall>x \<in> set cs. is_digit 10 x"
    by (cases s) (auto simp: test_digits_def)
  have all: "\<forall>x \<in> set s. is_digit 10 x"
    using s c cs by simp
  have d: "dropWhile is_space s = s"
    using s c by (simp add: is_digit_not_space)
  have sg: "\<not> startsWith ''-'' s" "\<not> startsWith ''+'' s"
    using s c is_digit_not_sign [of c] by (auto simp: startsWith_def)
  have hx: "\<not> startsWith ''0x'' s" "\<not> startsWith ''0X'' s"
  proof -
    show "\<not> startsWith ''0x'' s"
    proof (cases cs)
      case Nil
      with s show ?thesis by (simp add: startsWith_def)
    next
      case (Cons y ys)
      with cs have "is_digit 10 y" by simp
      then have "y \<noteq> CHR ''x''" using is_digit_not_sign by blast
      with s Cons show ?thesis by (simp add: startsWith_def)
    qed
    show "\<not> startsWith ''0X'' s"
    proof (cases cs)
      case Nil
      with s show ?thesis by (simp add: startsWith_def)
    next
      case (Cons y ys)
      with cs have "is_digit 10 y" by simp
      then have "y \<noteq> CHR ''X''" using is_digit_not_sign by blast
      with s Cons show ?thesis by (simp add: startsWith_def)
    qed
  qed
  have t: "takeWhile (is_digit 10) s = s"
    using all by (simp add: takeWhile_eq_all_conv)
  from s have ne: "s \<noteq> []" by simp
  show ?thesis
    by (simp add: parseInt_def Let_def d sg hx t ne)
qed

lemma length_digits:
  "length (digits n) = (if n < 10 then 1 else Suc (length (digits (n div 10))))"
  by (simp add: digits.simps [of n])

text \<open>
  Where the code follows the rule of the specification: on the numbers from 0 up to
  \<open>2 ^ 53\<close>, whose string is the sequence of their decimal digits. A string of decimal
  digits that denotes such a number is treated as that number.
\<close>

lemma parseTimestamp_safe_nonnegative:
  assumes "0 \<le> k" and "k < 2 ^ 53"
  shows "parseTimestamp date (Some (Number (Num k))) = spec_normalizeTimestamp k"
proof -
  from assms(1) have "length (number_toString (Num k)) = digit_length k"
    by (simp add: digit_length_def)
  then show ?thesis
    by (simp add: spec_normalizeTimestamp_def Let_def)
qed

lemma parseTimestamp_digit_string:
  assumes "test_digits s" and "digits_value 10 s < 2 ^ 53"
  shows "parseTimestamp date (Some (Str s)) =
    parseTimestamp date (Some (Number (Num (int (digits_value 10 s)))))"
  using assms parseInt_digits [of s] by simp

lemma parseTimestamp_absent: "parseTimestamp date None = Inr None"
  by simp

text \<open>
  C5: a number is returned unchanged when it has exactly 10 decimal digits, divided by
  1000 and floored when it has exactly 13, and refused with \<open>Invalid timestamp\<close> for
  every other digit length. The code does not count digits: it takes the length of
  \<open>timestamp.toString()\<close>, in which the minus sign of a negative number is a character
  too. The number \<open>-123456789\<close> has 9 decimal digits, so that the rule refuses it, but its
  string has 10 characters and the code returns it unchanged, as seconds.
\<close>

theorem parseTimestamp_minus_sign_counted:
  "digit_length (- 123456789) = 9
   \<and> number_toString (Num (- 123456789)) = ''-123456789''
   \<and> length (number_toString (Num (- 123456789))) = 10
   \<and> parseTimestamp sample_date (Some (Number (Num (- 123456789)))) = Inr (Some (Num (- 123456789)))
   \<and> spec_normalizeTimestamp (- 123456789) = Inl (Error ''Invalid timestamp'')"
proof -
  have d: "digits 123456789 = ''123456789''"
    by (simp add: digits.simps digit_char_def)
  then show ?thesis
    by (simp add: digit_length_def spec_normalizeTimestamp_def)
qed

text \<open>
  C6: a string that is not made of decimal digits only gets a \<open>Z\<close> appended unless it
  ends with one and is given to the date parser; when the parser reads a date, at \<open>ms\<close>
  milliseconds since the epoch, the result is \<open>ms\<close> divided by 1000 and floored: the
  largest whole number of seconds that is not after the date, never the nearest one.
\<close>

theorem parseTimestamp_date_string:
  "\<not> test_digits s \<and> date (if endsWith ''Z'' s then s else s @ ''Z'') = Num ms \<longrightarrow>
     parseTimestamp date (Some (Str s)) = Inr (Some (Num (ms div 1000)))
     \<and> (ms div 1000) * 1000 \<le> ms \<and> ms < (ms div 1000) * 1000 + 1000"
proof -
  have "(ms div 1000) * 1000 \<le> ms \<and> ms < (ms div 1000) * 1000 + 1000"
    by presburger
  then show ?thesis by simp
qed

theorem parseTimestamp_date_string_witness:
  "parseTimestamp sample_date (Some (Str ''1970-01-01T00:00:01.500'')) = Inr (Some (Num 1))
   \<and> parseTimestamp sample_date (Some (Str ''1969-12-31T23:59:59.500Z'')) = Inr (Some (Num (- 1)))"
proof -
  have n1: "\<not> test_digits ''1970-01-01T00:00:01.500''"
    by (simp add: test_digits_def is_digit_def digit_value_def)
  have d1: "sample_date (if endsWith ''Z'' ''1970-01-01T00:00:01.500'' then ''1970-01-01T00:00:01.500''
              else ''1970-01-01T00:00:01.500'' @ ''Z'') = Num 1500"
    by (simp add: sample_date_def endsWith_def)
  have n2: "\<not> test_digits ''1969-12-31T23:59:59.500Z''"
    by (simp add: test_digits_def is_digit_def digit_value_def)
  have d2: "sample_date (if endsWith ''Z'' ''1969-12-31T23:59:59.500Z'' then ''1969-12-31T23:59:59.500Z''
              else ''1969-12-31T23:59:59.500Z'' @ ''Z'') = Num (- 500)"
    by (simp add: sample_date_def endsWith_def)
  have a: "parseTimestamp sample_date (Some (Str ''1970-01-01T00:00:01.500'')) = Inr (Some (Num (1500 div 1000)))"
    using parseTimestamp_date_string [of "''1970-01-01T00:00:01.500''" sample_date 1500] n1 d1 by blast
  have b: "parseTimestamp sample_date (Some (Str ''1969-12-31T23:59:59.500Z'')) = Inr (Some (Num (- 500 div 1000)))"
    using parseTimestamp_date_string [of "''1969-12-31T23:59:59.500Z''" sample_date "- 500"] n2 d2 by blast
  from a b show ?thesis by simp
qed

text \<open>
  C10: a string that is not made of decimal digits only and that the date parser
  rejects, once a \<open>Z\<close> is appended unless it ends with one, makes \<open>parseTimestamp\<close> return
  \<open>NaN\<close>: nothing is thrown and the result is not absent.
\<close>

theorem parseTimestamp_invalid_date:
  "\<not> test_digits s \<and> date (if endsWith ''Z'' s then s else s @ ''Z'') = NaN \<longrightarrow>
     parseTimestamp date (Some (Str s)) = Inr (Some NaN)
     \<and> parseTimestamp date (Some (Str s)) \<noteq> Inl (Error ''Invalid timestamp'')
     \<and> parseTimestamp date (Some (Str s)) \<noteq> Inr None"
  by simp

theorem parseTimestamp_invalid_date_witness:
  "parseTimestamp sample_date (Some (Str ''not-a-date'')) = Inr (Some NaN)"
proof -
  have n: "\<not> test_digits ''not-a-date''"
    by (simp add: test_digits_def is_digit_def digit_value_def)
  have d: "sample_date (if endsWith ''Z'' ''not-a-date'' then ''not-a-date''
              else ''not-a-date'' @ ''Z'') = NaN"
    by (simp add: sample_date_def endsWith_def)
  from parseTimestamp_invalid_date [of "''not-a-date''" sample_date] n d show ?thesis
    by blast
qed

section \<open>Error responses\<close>

text \<open>
  C9: \<open>APIErrorResponse\<close> builds one record of the status, the code and the message,
  gives it to the logger once, adds one to the error counter of the request path and the
  status, and responds with the record. The message is the error itself when it is a
  string, the lines \<open>[code] path: message\<close> of the issues, with the segments of a path
  joined by \<open>/\<close> and the lines joined by a newline, when it is a \<open>ZodError\<close>, the
  message of another \<open>Error\<close>, and a fixed text for every other value.
\<close>

theorem APIErrorResponse_correct:
  "APIErrorResponse ctx st cd err fx =
     (Json \<lparr>status = st, code = cd, message = error_message err\<rparr> st,
      fx\<lparr>logged := logged fx @ [\<lparr>status = st, code = cd, message = error_message err\<rparr>],
         request_error :=
           (request_error fx)((req_path ctx, st) := request_error fx (req_path ctx, st) + 1)\<rparr>)
   \<and> error_message (StringValue s) = s
   \<and> error_message (ZodError issues) =
       join [CHR 0x0A]
         (map (\<lambda>i. ''['' @ issue_code i @ ''] ''
                    @ join ''/'' (map segment_toString (issue_path i))
                    @ '': '' @ issue_message i) issues)
   \<and> error_message (OtherError m) = m
   \<and> error_message OtherValue = ''An unexpected error occured''
   \<and> error_message (ZodError []) = []
   \<and> error_message (ZodError [ZodIssue c [] m]) = ''['' @ c @ ''] : '' @ m
   \<and> error_message (ZodError [ZodIssue c [Key a] m]) = ''['' @ c @ ''] '' @ a @ '': '' @ m
   \<and> error_message (ZodError [ZodIssue c [Key a, Index 0] m]) =
       ''['' @ c @ ''] '' @ a @ ''/0: '' @ m
   \<and> error_message (ZodError [ZodIssue c [Key a, Index 12, Key b] m]) =
       ''['' @ c @ ''] '' @ a @ ''/12/'' @ b @ '': '' @ m
   \<and> error_message (ZodError (i # j # js)) =
       error_message (ZodError [i]) @ [CHR 0x0A] @ error_message (ZodError (j # js))"
proof -
  have l: "issue_line = (\<lambda>i. ''['' @ issue_code i @ ''] ''
                    @ join ''/'' (map segment_toString (issue_path i))
                    @ '': '' @ issue_message i)"
    by (rule ext) (simp add: issue_line_def)
  have d0: "digits 0 = ''0''"
    by (simp add: digits.simps digit_char_def)
  have d12: "digits 12 = ''12''"
    by (simp add: digits.simps digit_char_def)
  have a: "APIErrorResponse ctx st cd err fx =
     (Json \<lparr>status = st, code = cd, message = error_message err\<rparr> st,
      fx\<lparr>logged := logged fx @ [\<lparr>status = st, code = cd, message = error_message err\<rparr>],
         request_error :=
           (request_error fx)((req_path ctx, st) := request_error fx (req_path ctx, st) + 1)\<rparr>)"
    by (simp add: APIErrorResponse_def Let_def)
  have b: "error_message (ZodError issues) =
       join [CHR 0x0A]
         (map (\<lambda>i. ''['' @ issue_code i @ ''] ''
                    @ join ''/'' (map segment_toString (issue_path i))
                    @ '': '' @ issue_message i) issues)"
    using l by (simp add: error_message_def)
  have c1: "error_message (ZodError [ZodIssue c [] m]) = ''['' @ c @ ''] : '' @ m"
    by (simp add: error_message_def issue_line_def)
  have c2: "error_message (ZodError [ZodIssue c [Key a] m]) = ''['' @ c @ ''] '' @ a @ '': '' @ m"
    by (simp add: error_message_def issue_line_def segment_toString_def)
  have c3: "error_message (ZodError [ZodIssue c [Key a, Index 0] m]) =
       ''['' @ c @ ''] '' @ a @ ''/0: '' @ m"
    by (simp add: error_message_def issue_line_def segment_toString_def d0)
  have c4: "error_message (ZodError [ZodIssue c [Key a, Index 12, Key b] m]) =
       ''['' @ c @ ''] '' @ a @ ''/12/'' @ b @ '': '' @ m"
    by (simp add: error_message_def issue_line_def segment_toString_def d12)
  have c5: "error_message (ZodError (i # j # js)) =
       error_message (ZodError [i]) @ [CHR 0x0A] @ error_message (ZodError (j # js))"
    by (simp add: error_message_def)
  from a b c1 c2 c3 c4 c5 show ?thesis
    by (simp add: error_message_def)
qed

theorem APIErrorResponse_correct_witness:
  "fst (APIErrorResponse sample_context 400 ''bad_query_input''
         (ZodError [ZodIssue ''invalid_type'' [Key ''block_range'', Index 0] ''Expected number'',
                    ZodIssue ''custom'' [Key ''contract''] ''Invalid address'']) no_effects) =
     Json \<lparr>status = 400, code = ''bad_query_input'',
           message = ''[invalid_type] block_range/0: Expected number'' @ [CHR 0x0A]
                     @ ''[custom] contract: Invalid address''\<rparr> 400
   \<and> logged (snd (APIErrorResponse sample_context 400 ''bad_query_input''
         (ZodError [ZodIssue ''invalid_type'' [Key ''block_range'', Index 0] ''Expected number'',
                    ZodIssue ''custom'' [Key ''contract''] ''Invalid address'']) no_effects)) =
     [\<lparr>status = 400, code = ''bad_query_input'',
       message = ''[invalid_type] block_range/0: Expected number'' @ [CHR 0x0A]
                 @ ''[custom] contract: Invalid address''\<rparr>]
   \<and> request_error (snd (APIErrorResponse sample_context 400 ''bad_query_input''
         (ZodError [ZodIssue ''invalid_type'' [Key ''block_range'', Index 0] ''Expected number'',
                    ZodIssue ''custom'' [Key ''contract''] ''Invalid address'']) no_effects))
       (''/balances/evm/0x12'', 400) = 1
   \<and> request_error (snd (APIErrorResponse sample_context 400 ''bad_query_input''
         (ZodError [ZodIssue ''invalid_type'' [Key ''block_range'', Index 0] ''Expected number'',
                    ZodIssue ''custom'' [Key ''contract''] ''Invalid address'']) no_effects))
       (''/balances/evm/0x12'', 500) = 0
   \<and> fst (APIErrorResponse sample_context 500 ''bad_database_response''
         (StringValue ''Connection refused'') no_effects) =
     Json \<lparr>status = 500, code = ''bad_database_response'', message = ''Connection refused''\<rparr> 500
   \<and> fst (APIErrorResponse sample_context 500 ''bad_database_response''
         (OtherError ''Timeout exceeded'') no_effects) =
     Json \<lparr>status = 500, code = ''bad_database_response'', message = ''Timeout exceeded''\<rparr> 500
   \<and> fst (APIErrorResponse sample_context 500 ''bad_database_response'' OtherValue no_effects) =
     Json \<lparr>status = 500, code = ''bad_database_response'',
           message = ''An unexpected error occured''\<rparr> 500"
proof -
  let ?zod = "ZodError [ZodIssue ''invalid_type'' [Key ''block_range'', Index 0] ''Expected number'',
                    ZodIssue ''custom'' [Key ''contract''] ''Invalid address'']"
  have p: "req_path sample_context = ''/balances/evm/0x12''"
    by (simp add: sample_context_def)
  have "error_message (ZodError [ZodIssue ''invalid_type'' [Key ''block_range'', Index 0]
              ''Expected number'']) =
          ''['' @ ''invalid_type'' @ ''] '' @ ''block_range'' @ ''/0: '' @ ''Expected number''"
    using APIErrorResponse_correct
      [where c = "''invalid_type''" and a = "''block_range''" and m = "''Expected number''"]
    by blast
  then have m1: "error_message (ZodError [ZodIssue ''invalid_type'' [Key ''block_range'', Index 0]
              ''Expected number'']) = ''[invalid_type] block_range/0: Expected number''"
    by simp
  have "error_message (ZodError [ZodIssue ''custom'' [Key ''contract''] ''Invalid address''])
          = ''['' @ ''custom'' @ ''] '' @ ''contract'' @ '': '' @ ''Invalid address''"
    using APIErrorResponse_correct
      [where c = "''custom''" and a = "''contract''" and m = "''Invalid address''"]
    by blast
  then have m2: "error_message (ZodError [ZodIssue ''custom'' [Key ''contract''] ''Invalid address''])
            = ''[custom] contract: Invalid address''"
    by simp
  have "error_message ?zod =
      error_message (ZodError [ZodIssue ''invalid_type'' [Key ''block_range'', Index 0]
              ''Expected number'']) @ [CHR 0x0A]
      @ error_message (ZodError [ZodIssue ''custom'' [Key ''contract''] ''Invalid address''])"
    using APIErrorResponse_correct
      [where i = "ZodIssue ''invalid_type'' [Key ''block_range'', Index 0] ''Expected number''"
         and j = "ZodIssue ''custom'' [Key ''contract''] ''Invalid address''" and js = "[]"]
    by blast
  then have m: "error_message ?zod = ''[invalid_type] block_range/0: Expected number'' @ [CHR 0x0A]
                     @ ''[custom] contract: Invalid address''"
    by (simp only: m1 m2)
  have z: "APIErrorResponse sample_context 400 ''bad_query_input'' ?zod no_effects =
     (Json \<lparr>status = 400, code = ''bad_query_input'', message = error_message ?zod\<rparr> 400,
      no_effects\<lparr>logged := logged no_effects
           @ [\<lparr>status = 400, code = ''bad_query_input'', message = error_message ?zod\<rparr>],
         request_error :=
           (request_error no_effects)((req_path sample_context, 400) :=
              request_error no_effects (req_path sample_context, 400) + 1)\<rparr>)"
    using APIErrorResponse_correct
      [where ctx = sample_context and st = 400 and cd = "''bad_query_input''" and err = ?zod
         and fx = no_effects]
    by blast
  have s: "fst (APIErrorResponse sample_context 500 ''bad_database_response''
         (StringValue ''Connection refused'') no_effects) =
     Json \<lparr>status = 500, code = ''bad_database_response'', message = ''Connection refused''\<rparr> 500"
    using APIErrorResponse_correct
      [where ctx = sample_context and st = 500 and cd = "''bad_database_response''"
         and err = "StringValue ''Connection refused''" and fx = no_effects
         and s = "''Connection refused''"]
    by simp
  have e: "fst (APIErrorResponse sample_context 500 ''bad_database_response''
         (OtherError ''Timeout exceeded'') no_effects) =
     Json \<lparr>status = 500, code = ''bad_database_response'', message = ''Timeout exceeded''\<rparr> 500"
    using APIErrorResponse_correct
      [where ctx = sample_context and st = 500 and cd = "''bad_database_response''"
         and err = "OtherError ''Timeout exceeded''" and fx = no_effects
         and m = "''Timeout exceeded''"]
    by simp
  have v: "fst (APIErrorResponse sample_context 500 ''bad_database_response'' OtherValue no_effects) =
     Json \<lparr>status = 500, code = ''bad_database_response'',
           message = ''An unexpected error occured''\<rparr> 500"
    using APIErrorResponse_correct
      [where ctx = sample_context and st = 500 and cd = "''bad_database_response''"
         and err = OtherValue and fx = no_effects]
    by simp
  from z m p s e v show ?thesis
    by (simp add: no_effects_def)
qed

section \<open>Query parameters\<close>

text \<open>Joining the pieces of a string with the separator gives the string back.\<close>

lemma split_not_Nil: "split sep s \<noteq> []"
  by (induction s) (auto split: list.splits)

lemma join_split: "join [sep] (split sep s) = s"
proof (induction s)
  case Nil
  show ?case by simp
next
  case (Cons c cs)
  obtain x xs where x: "split sep cs = x # xs"
    using split_not_Nil [of sep cs] by (cases "split sep cs") auto
  show ?case
  proof (cases "c = sep")
    case True
    with x Cons show ?thesis by simp
  next
    case False
    from x Cons have "join [sep] (x # xs) = cs" by simp
    then have "join [sep] ((c # x) # xs) = c # cs"
      by (cases xs) auto
    with False x show ?thesis by simp
  qed
qed

lemma drop_0x_other: "k \<noteq> p \<Longrightarrow> drop_0x q p k = q k"
  by (simp add: drop_0x_def split: option.splits jsvalue.splits)

lemma drop_0x_same:
  "q p = Some (JString a) \<Longrightarrow>
   drop_0x q p p =
     (if startsWith ''0x'' (toLowerCase a) then Some (JString (drop 2 a)) else Some (JString a))"
  by (simp add: drop_0x_def)

lemma transform_unfold:
  "transform v = drop_0x (drop_0x (drop_0x (drop_0x v ''contract'') ''account'') ''from'') ''to''"
  by (simp add: transform_def addresses_def)

lemma transform_address:
  assumes "f \<in> set addresses" and "v f = Some (JString a)"
  shows "transform v f =
    (if startsWith ''0x'' (toLowerCase a) then Some (JString (drop 2 a)) else Some (JString a))"
proof -
  from assms(1) consider "f = ''contract''" | "f = ''account''" | "f = ''from''" | "f = ''to''"
    by (auto simp: addresses_def)
  then show ?thesis
  proof cases
    case 1
    have "transform v f = drop_0x v f f"
      unfolding transform_unfold using 1 by (simp add: drop_0x_other)
    with assms(2) show ?thesis by (simp only: drop_0x_same)
  next
    case 2
    have a: "drop_0x v ''contract'' f = v f"
      using 2 by (simp add: drop_0x_other)
    have "transform v f = drop_0x (drop_0x v ''contract'') f f"
      unfolding transform_unfold using 2 by (simp add: drop_0x_other)
    with a assms(2) show ?thesis by (simp only: drop_0x_same)
  next
    case 3
    have a: "drop_0x (drop_0x v ''contract'') ''account'' f = v f"
      using 3 by (simp add: drop_0x_other)
    have "transform v f = drop_0x (drop_0x (drop_0x v ''contract'') ''account'') f f"
      unfolding transform_unfold using 3 by (simp add: drop_0x_other)
    with a assms(2) show ?thesis by (simp only: drop_0x_same)
  next
    case 4
    have a: "drop_0x (drop_0x (drop_0x v ''contract'') ''account'') ''from'' f = v f"
      using 4 by (simp add: drop_0x_other)
    have "transform v f = drop_0x (drop_0x (drop_0x (drop_0x v ''contract'') ''account'') ''from'') f f"
      unfolding transform_unfold using 4 by simp
    with a assms(2) show ?thesis by (simp only: drop_0x_same)
  qed
qed

lemma transform_other: "f \<notin> set addresses \<Longrightarrow> transform v f = v f"
  by (simp add: transform_unfold addresses_def drop_0x_other)

lemma lower_char_unfold:
  "lower_char c =
     (if c = CHR ''A'' then CHR ''a'' else if c = CHR ''B'' then CHR ''b''
      else if c = CHR ''C'' then CHR ''c'' else if c = CHR ''D'' then CHR ''d''
      else if c = CHR ''E'' then CHR ''e'' else if c = CHR ''F'' then CHR ''f''
      else if c = CHR ''G'' then CHR ''g'' else if c = CHR ''H'' then CHR ''h''
      else if c = CHR ''I'' then CHR ''i'' else if c = CHR ''J'' then CHR ''j''
      else if c = CHR ''K'' then CHR ''k'' else if c = CHR ''L'' then CHR ''l''
      else if c = CHR ''M'' then CHR ''m'' else if c = CHR ''N'' then CHR ''n''
      else if c = CHR ''O'' then CHR ''o'' else if c = CHR ''P'' then CHR ''p''
      else if c = CHR ''Q'' then CHR ''q'' else if c = CHR ''R'' then CHR ''r''
      else if c = CHR ''S'' then CHR ''s'' else if c = CHR ''T'' then CHR ''t''
      else if c = CHR ''U'' then CHR ''u'' else if c = CHR ''V'' then CHR ''v''
      else if c = CHR ''W'' then CHR ''w'' else if c = CHR ''X'' then CHR ''x''
      else if c = CHR ''Y'' then CHR ''y'' else if c = CHR ''Z'' then CHR ''z''
      else c)"
  by (simp add: lower_char_def)

lemma lower_char_0: "lower_char c = CHR ''0'' \<longleftrightarrow> c = CHR ''0''"
  by (simp add: lower_char_unfold)

lemma lower_char_x: "lower_char c = CHR ''x'' \<longleftrightarrow> c = CHR ''x'' \<or> c = CHR ''X''"
  by (simp add: lower_char_unfold)

lemma startsWith_0x_toLowerCase:
  "startsWith ''0x'' (toLowerCase a) \<longleftrightarrow> startsWith ''0x'' a \<or> startsWith ''0X'' a"
proof (cases a)
  case Nil
  then show ?thesis by (simp add: startsWith_def toLowerCase_def)
next
  case (Cons c cs)
  show ?thesis
  proof (cases cs)
    case Nil
    with Cons show ?thesis by (simp add: startsWith_def toLowerCase_def)
  next
    case (Cons d ds)
    with \<open>a = c # cs\<close> show ?thesis
      by (auto simp: startsWith_def toLowerCase_def lower_char_0 lower_char_x)
  qed
qed

text \<open>
  C2 (claim as stated, refuted): the test \<open>if (q.block_range)\<close> fails on the empty
  string, the value of \<open>block_range\<close> in a request for \<open>?block_range=\<close>. The schema then
  receives the string, not the array of one empty string that splitting gives.
\<close>

theorem preprocess_empty_block_range_counterexample:
  "preprocess [''block_range'' \<mapsto> []] ''block_range'' = Some (JString [])
   \<and> split CHR '','' [] = [[]]
   \<and> preprocess [''block_range'' \<mapsto> []] ''block_range''
       \<noteq> Some (JArray (map JString (split CHR '','' [])))"
  by (simp add: preprocess_def raw_params_def)

text \<open>
  C2 (amended): a \<open>block_range\<close> that is a non-empty string reaches the schema as the
  array of its pieces between the commas, in order, and every other field reaches it as
  the string it was, an address with its prefix. When the schema rejects its input the
  result is that failure. When it accepts, and only then, the parsed data go through the
  transformation: a field among \<open>contract\<close>, \<open>account\<close>, \<open>from\<close> and \<open>to\<close> that is a
  string beginning with \<open>0x\<close> or \<open>0X\<close> loses these two characters, and every other
  field is left as it is.
\<close>

theorem query_safeParse_correct:
  "(q ''block_range'' = Some r \<and> r \<noteq> [] \<longrightarrow>
      preprocess q ''block_range'' = Some (JArray (map JString (split CHR '','' r)))
      \<and> join '','' (split CHR '','' r) = r)
   \<and> (k \<noteq> ''block_range'' \<longrightarrow> preprocess q k = map_option JString (q k))
   \<and> (safeParse s (preprocess q) = Failure issues \<longrightarrow> query_safeParse s q = Failure issues)
   \<and> (safeParse s (preprocess q) = Success v \<longrightarrow> query_safeParse s q = Success (transform v))
   \<and> (f \<in> set addresses \<and> v f = Some (JString a) \<and> startsWith ''0x'' (toLowerCase a) \<longrightarrow>
        transform v f = Some (JString (drop 2 a)))
   \<and> (f \<in> set addresses \<and> v f = Some (JString a) \<and> \<not> startsWith ''0x'' (toLowerCase a) \<longrightarrow>
        transform v f = Some (JString a))
   \<and> (f \<notin> set addresses \<longrightarrow> transform v f = v f)
   \<and> (startsWith ''0x'' (toLowerCase a) \<longleftrightarrow> startsWith ''0x'' a \<or> startsWith ''0X'' a)"
proof -
  have pre: "preprocess q ''block_range'' = Some (JArray (map JString (split CHR '','' r)))"
    if "q ''block_range'' = Some r" and "r \<noteq> []"
    using that by (simp add: preprocess_def)
  have oth: "preprocess q k = map_option JString (q k)" if "k \<noteq> ''block_range''"
    using that by (simp add: preprocess_def raw_params_def split: option.splits)
  have fl: "query_safeParse s q = Failure issues" if "safeParse s (preprocess q) = Failure issues"
    using that by (simp add: query_safeParse_def)
  have sc: "query_safeParse s q = Success (transform v)" if "safeParse s (preprocess q) = Success v"
    using that by (simp add: query_safeParse_def)
  have js: "join '','' (split CHR '','' r) = r"
    by (rule join_split)
  have ad: "transform v f = Some (JString (drop 2 a))"
    if "f \<in> set addresses" and "v f = Some (JString a)" and "startsWith ''0x'' (toLowerCase a)"
    using transform_address [of f v a] that by simp
  have ak: "transform v f = Some (JString a)"
    if "f \<in> set addresses" and "v f = Some (JString a)" and "\<not> startsWith ''0x'' (toLowerCase a)"
    using transform_address [of f v a] that by simp
  from pre oth fl sc js ad ak transform_other [of f v] startsWith_0x_toLowerCase [of a]
  show ?thesis by blast
qed

theorem query_safeParse_correct_witness:
  "preprocess [''block_range'' \<mapsto> ''100,200'', ''contract'' \<mapsto> ''0Xab''] ''block_range''
     = Some (JArray [JString ''100'', JString ''200''])
   \<and> preprocess [''block_range'' \<mapsto> ''100,200'', ''contract'' \<mapsto> ''0Xab''] ''contract''
     = Some (JString ''0Xab'')
   \<and> query_safeParse (Some sample_query_schema) [''block_range'' \<mapsto> [], ''contract'' \<mapsto> ''0Xab'']
     = Failure [ZodIssue ''invalid_type'' [Key ''block_range''] ''Expected array, received string'']
   \<and> query_safeParse None [''block_range'' \<mapsto> ''100,200'', ''contract'' \<mapsto> ''0Xab'']
     = Success (transform (preprocess [''block_range'' \<mapsto> ''100,200'', ''contract'' \<mapsto> ''0Xab'']))
   \<and> transform (preprocess [''block_range'' \<mapsto> ''100,200'', ''contract'' \<mapsto> ''0Xab'']) ''contract''
     = Some (JString ''ab'')
   \<and> transform [''to'' \<mapsto> JString ''ab''] ''to'' = Some (JString ''ab'')
   \<and> transform (preprocess [''block_range'' \<mapsto> ''100,200'', ''contract'' \<mapsto> ''0Xab'']) ''block_range''
     = Some (JArray [JString ''100'', JString ''200''])"
proof -
  let ?q = "[''block_range'' \<mapsto> ''100,200'', ''contract'' \<mapsto> ''0Xab'']"
  let ?empty = "[''block_range'' \<mapsto> [], ''contract'' \<mapsto> ''0Xab'']"
  let ?bad = "[ZodIssue ''invalid_type'' [Key ''block_range''] ''Expected array, received string'']"
  have h1a: "?q ''block_range'' = Some ''100,200''" by simp
  have h1b: "''100,200'' \<noteq> []" by simp
  have h1: "?q ''block_range'' = Some ''100,200'' \<and> ''100,200'' \<noteq> []"
    using h1a h1b by blast
  have sp: "split CHR '','' ''100,200'' = [''100'', ''200'']" by simp
  have h2: "''contract'' \<noteq> ''block_range''" by simp
  have h3: "safeParse (Some sample_query_schema) (preprocess ?empty) = Failure ?bad"
    by (simp add: safeParse_def sample_query_schema_def preprocess_def raw_params_def)
  have h4: "safeParse None (preprocess ?q) = Success (preprocess ?q)"
    by (simp add: safeParse_def)
  have c: "preprocess ?q ''contract'' = Some (JString ''0Xab'')"
    using query_safeParse_correct [where q = ?q and k = "''contract''"] h2 by simp
  have h5: "''contract'' \<in> set addresses \<and> preprocess ?q ''contract'' = Some (JString ''0Xab'')
            \<and> startsWith ''0x'' (toLowerCase ''0Xab'')"
    using c by (simp add: addresses_def startsWith_def toLowerCase_def lower_char_def)
  have h6: "''to'' \<in> set addresses \<and> [''to'' \<mapsto> JString ''ab''] ''to'' = Some (JString ''ab'')
            \<and> \<not> startsWith ''0x'' (toLowerCase ''ab'')"
    by (simp add: addresses_def startsWith_def toLowerCase_def lower_char_def)
  have h7: "''block_range'' \<notin> set addresses"
    by (simp add: addresses_def)
  have b: "preprocess ?q ''block_range'' = Some (JArray [JString ''100'', JString ''200''])"
    using query_safeParse_correct [where q = ?q and r = "''100,200''"] h1 sp by simp
  have f: "query_safeParse (Some sample_query_schema) ?empty = Failure ?bad"
    using query_safeParse_correct [where q = ?empty and s = "Some sample_query_schema" and issues = ?bad] h3 by blast
  have s: "query_safeParse None ?q = Success (transform (preprocess ?q))"
    using query_safeParse_correct [where q = ?q and s = None and v = "preprocess ?q"] h4 by blast
  have t1: "transform (preprocess ?q) ''contract'' = Some (JString ''ab'')"
    using query_safeParse_correct [where v = "preprocess ?q" and f = "''contract''" and a = "''0Xab''"] h5
    by simp
  have t2: "transform [''to'' \<mapsto> JString ''ab''] ''to'' = Some (JString ''ab'')"
    using query_safeParse_correct [where v = "[''to'' \<mapsto> JString ''ab'']" and f = "''to''" and a = "''ab''"] h6
    by blast
  have t3: "transform (preprocess ?q) ''block_range'' = preprocess ?q ''block_range''"
    using query_safeParse_correct [where v = "preprocess ?q" and f = "''block_range''"] h7
    by blast
  from b c f s t1 t2 t3 show ?thesis by simp
qed

section \<open>The handler of a usage endpoint\<close>

lemma createUsageEndpoint_success:
  "safeParse (path_schema (paths endpoint)) (raw_params (req_param ctx)) = Success p \<Longrightarrow>
   query_safeParse (query_schema (paths endpoint)) (req_query ctx) = Success q \<Longrightarrow>
   createUsageEndpoint paths endpoint ctx fx = (MakeUsageQuery endpoint (p ++ q), fx)"
  by (simp add: createUsageEndpoint_def)

text \<open>
  C1: when the validation of the path parameters fails, or that of the query parameters,
  or both, the handler calls no \<open>makeUsageQuery\<close> and answers with one error response of
  status 400 and code \<open>bad_query_input\<close>, logged and counted once. Its message renders
  the issues of the path parameters followed by those of the query parameters, each list
  in the order the schema reported it: both validations have run, whatever the other one
  gave (a validation that succeeded adds no issue).
\<close>

theorem createUsageEndpoint_bad_query_input:
  "\<not> (success (safeParse (path_schema (paths endpoint)) (raw_params (req_param ctx)))
       \<and> success (query_safeParse (query_schema (paths endpoint)) (req_query ctx))) \<longrightarrow>
   createUsageEndpoint paths endpoint ctx fx =
     (Respond (Json \<lparr>status = 400, code = ''bad_query_input'',
                message = join [CHR 0x0A] (map issue_line
                  (issues_of (safeParse (path_schema (paths endpoint)) (raw_params (req_param ctx)))
                   @ issues_of (query_safeParse (query_schema (paths endpoint)) (req_query ctx))))\<rparr> 400),
      fx\<lparr>logged := logged fx @ [\<lparr>status = 400, code = ''bad_query_input'',
                message = join [CHR 0x0A] (map issue_line
                  (issues_of (safeParse (path_schema (paths endpoint)) (raw_params (req_param ctx)))
                   @ issues_of (query_safeParse (query_schema (paths endpoint)) (req_query ctx))))\<rparr>],
         request_error := (request_error fx)((req_path ctx, 400) :=
                             request_error fx (req_path ctx, 400) + 1)\<rparr>)
   \<and> fst (createUsageEndpoint paths endpoint ctx fx) \<noteq> MakeUsageQuery e p
   \<and> issues_of (Failure issues) = issues
   \<and> issues_of (Success v) = []"
  by (simp add: createUsageEndpoint_def APIErrorResponse_def error_message_def issues_of_def Let_def)

theorem createUsageEndpoint_bad_query_input_witness:
  "fst (createUsageEndpoint sample_paths ''/balances/evm/{address}'' sample_context no_effects) =
     Respond (Json \<lparr>status = 400, code = ''bad_query_input'',
       message = ''[custom] address: Invalid address'' @ [CHR 0x0A]
                 @ ''[invalid_type] block_range: Expected array, received string''\<rparr> 400)
   \<and> logged (snd (createUsageEndpoint sample_paths ''/balances/evm/{address}'' sample_context no_effects)) =
       [\<lparr>status = 400, code = ''bad_query_input'',
         message = ''[custom] address: Invalid address'' @ [CHR 0x0A]
                 @ ''[invalid_type] block_range: Expected array, received string''\<rparr>]
   \<and> request_error (snd (createUsageEndpoint sample_paths ''/balances/evm/{address}'' sample_context no_effects))
         (''/balances/evm/0x12'', 400) = 1"
proof -
  have pr: "safeParse (path_schema (sample_paths ''/balances/evm/{address}''))
              (raw_params (req_param sample_context))
            = Failure [ZodIssue ''custom'' [Key ''address''] ''Invalid address'']"
    by (simp add: safeParse_def sample_paths_def sample_path_schema_def raw_params_def
        sample_context_def)
  have qr: "query_safeParse (query_schema (sample_paths ''/balances/evm/{address}''))
              (req_query sample_context)
            = Failure [ZodIssue ''invalid_type'' [Key ''block_range'']
                ''Expected array, received string'']"
    by (simp add: query_safeParse_def safeParse_def sample_paths_def sample_query_schema_def
        preprocess_def raw_params_def sample_context_def)
  have h: "\<not> (success (safeParse (path_schema (sample_paths ''/balances/evm/{address}''))
              (raw_params (req_param sample_context)))
            \<and> success (query_safeParse (query_schema (sample_paths ''/balances/evm/{address}''))
              (req_query sample_context)))"
    by (simp add: pr)
  have p: "req_path sample_context = ''/balances/evm/0x12''"
    by (simp add: sample_context_def)
  from createUsageEndpoint_bad_query_input
    [of sample_paths "''/balances/evm/{address}''" sample_context no_effects] h
  have "createUsageEndpoint sample_paths ''/balances/evm/{address}'' sample_context no_effects =
     (Respond (Json \<lparr>status = 400, code = ''bad_query_input'',
                message = join [CHR 0x0A] (map issue_line
                  (issues_of (safeParse (path_schema (sample_paths ''/balances/evm/{address}'')) (raw_params (req_param sample_context)))
                   @ issues_of (query_safeParse (query_schema (sample_paths ''/balances/evm/{address}'')) (req_query sample_context))))\<rparr> 400),
      no_effects\<lparr>logged := logged no_effects @ [\<lparr>status = 400, code = ''bad_query_input'',
                message = join [CHR 0x0A] (map issue_line
                  (issues_of (safeParse (path_schema (sample_paths ''/balances/evm/{address}'')) (raw_params (req_param sample_context)))
                   @ issues_of (query_safeParse (query_schema (sample_paths ''/balances/evm/{address}'')) (req_query sample_context))))\<rparr>],
         request_error := (request_error no_effects)((req_path sample_context, 400) :=
                             request_error no_effects (req_path sample_context, 400) + 1)\<rparr>)"
    by blast
  then show ?thesis
    by (simp add: pr qr p issues_of_def issue_line_def segment_toString_def no_effects_def)
qed

end
